theory Spec2Isabelle
  imports Complex_Main "HOL-Library.Option_ord" "HOL-Library.Multiset"
begin

section \<open>graphics3d: parallel projection of 3D primitives\<close>

text \<open>
  The module \<^verbatim>\<open>graphics3d.py\<close> computes with Python floats. The embedding reads every
  float as a real number and every library function of \<^verbatim>\<open>math\<close> as the function it
  approximates (\<^verbatim>\<open>math.sin\<close> as \<open>sin\<close>, \<^verbatim>\<open>math.hypot\<close> as the Euclidean norm of
  a pair, \<^verbatim>\<open>math.radians\<close> as multiplication by \<open>pi / 180\<close>). Rounding, infinities
  and NaN are outside the model; the statements below are statements over real arithmetic.
\<close>

subsection \<open>Errors\<close>

text \<open>
  The exceptions the module can raise. \<open>GraphicsError\<close> is the toolkit's exception class;
  \<open>BAD_OPTION\<close> and \<open>UNSUPPORTED_METHOD\<close> are the toolkit's message constants.
\<close>

datatype graphics_message = BAD_OPTION | UNSUPPORTED_METHOD

datatype error =
    AssertionError string
  | ZeroDivisionError
  | KeyError string
  | AttributeError string
  | NameError string
  | GraphicsError graphics_message

subsection \<open>class Vector\<close>

datatype vector = Vector (getX: real) (getY: real) (getZ: real)

definition Vector_neg :: "vector \<Rightarrow> vector" where
  "Vector_neg self = Vector (- getX self) (- getY self) (- getZ self)"

definition Vector_add :: "vector \<Rightarrow> vector \<Rightarrow> vector" where
  "Vector_add self other =
     Vector (getX self + getX other) (getY self + getY other) (getZ self + getZ other)"

definition Vector_sub :: "vector \<Rightarrow> vector \<Rightarrow> vector" where
  "Vector_sub self other = Vector_add self (Vector_neg other)"

definition Vector_mul :: "vector \<Rightarrow> real \<Rightarrow> vector" where
  "Vector_mul self other = Vector (other * getX self) (other * getY self) (other * getZ self)"

text \<open>\<^verbatim>\<open>other * self\<close> with a float on the left dispatches to \<^verbatim>\<open>__rmul__\<close>.\<close>

definition Vector_rmul :: "vector \<Rightarrow> real \<Rightarrow> vector" where
  "Vector_rmul self other = Vector_mul self other"

text \<open>\<^verbatim>\<open>1.0 / other\<close> raises \<^verbatim>\<open>ZeroDivisionError\<close> when \<^verbatim>\<open>other\<close> is zero.\<close>

definition Vector_truediv :: "vector \<Rightarrow> real \<Rightarrow> error + vector" where
  "Vector_truediv self other =
     (if other = 0 then Inl ZeroDivisionError else Inr (Vector_rmul self (1 / other)))"

definition hypot :: "real \<Rightarrow> real \<Rightarrow> real" where
  "hypot a b = sqrt (a\<^sup>2 + b\<^sup>2)"

definition Vector_mag :: "vector \<Rightarrow> real" where
  "Vector_mag self = hypot (hypot (getX self) (getY self)) (getZ self)"

definition Vector_unit :: "vector \<Rightarrow> error + vector" where
  "Vector_unit self = Vector_truediv self (Vector_mag self)"

definition Vector_dot :: "vector \<Rightarrow> vector \<Rightarrow> real" where
  "Vector_dot self other =
     getX self * getX other + getY self * getY other + getZ self * getZ other"

definition Vector_cross :: "vector \<Rightarrow> vector \<Rightarrow> vector" where
  "Vector_cross self other =
     Vector (getY self * getZ other - getZ self * getY other)
            (getZ self * getX other - getX self * getZ other)
            (getX self * getY other - getY self * getX other)"

definition Vector_copy :: "vector \<Rightarrow> vector" where
  "Vector_copy self = Vector (getX self) (getY self) (getZ self)"

subsection \<open>class Camera\<close>

record camera =
  ux :: vector
  uy :: vector
  uz :: vector

definition radians :: "real \<Rightarrow> real" where
  "radians a = a * (pi / 180)"

text \<open>
  \<^verbatim>\<open>Camera.__init__\<close>. In Python the unary minus binds tighter than \<^verbatim>\<open>*\<close>, so
  \<^verbatim>\<open>-sz * ux0\<close> is \<^verbatim>\<open>(-sz) * ux0\<close>, again a call of \<^verbatim>\<open>__rmul__\<close>.
\<close>

definition Camera :: "real \<Rightarrow> real \<Rightarrow> real \<Rightarrow> camera" where
  "Camera az_angle alt_angle roll_angle =
     (let az = radians az_angle;
          alt = radians alt_angle;
          roll = radians roll_angle;
          sz = sin az;
          cz = cos az;
          sl = sin alt;
          cl = cos alt;
          sr = sin roll;
          cr = cos roll;
          ux0 = Vector 0 1 0;
          uy0 = Vector 0 0 (- 1);
          uz0 = Vector (- 1) 0 0;
          ux1 = Vector_add (Vector_rmul ux0 cz) (Vector_rmul uz0 sz);
          uy1 = Vector_copy uy0;
          uz1 = Vector_add (Vector_rmul ux0 (- sz)) (Vector_rmul uz0 cz);
          ux2 = Vector_copy ux1;
          uy2 = Vector_add (Vector_rmul uy1 cl) (Vector_rmul uz1 (- sl));
          uz2 = Vector_add (Vector_rmul uy1 sl) (Vector_rmul uz1 cl)
      in \<lparr> ux = Vector_add (Vector_rmul ux2 cr) (Vector_rmul uy2 sr),
           uy = Vector_add (Vector_rmul ux2 (- sr)) (Vector_rmul uy2 cr),
           uz = Vector_copy uz2 \<rparr>)"

definition Camera_project :: "camera \<Rightarrow> real \<Rightarrow> real \<Rightarrow> real \<Rightarrow> real \<times> real \<times> real" where
  "Camera_project self x y z =
     (let xyz = Vector x y z;
          xp = Vector_dot xyz (ux self);
          yp = Vector_dot xyz (uy self);
          zp = Vector_dot xyz (uz self)
      in (xp, yp, zp))"

definition Camera_invert :: "camera \<Rightarrow> real \<Rightarrow> real \<Rightarrow> real \<Rightarrow> real \<times> real \<times> real" where
  "Camera_invert self xp yp zp =
     (let xyz = Vector_add (Vector_add (Vector_rmul (ux self) xp) (Vector_rmul (uy self) yp))
                           (Vector_rmul (uz self) zp)
      in (getX xyz, getY xyz, getZ xyz))"

subsection \<open>The toolkit's base class\<close>

text \<open>
  The 3D classes derive from \<^verbatim>\<open>GraphicsObject\<close> of the imported toolkit module
  \<^verbatim>\<open>graphics\<close>, which is not part of the repository. The definitions of this
  subsection describe the part of that base class the 3D classes rely on: the three instance
  attributes \<^verbatim>\<open>canvas\<close>, \<^verbatim>\<open>id\<close> and \<^verbatim>\<open>config\<close>, the constructor, which fills
  \<^verbatim>\<open>config\<close> from \<^verbatim>\<open>DEFAULT_CONFIG\<close> for the listed option names, and
  \<^verbatim>\<open>_reconfig\<close>, which stores a setting under an option name the object has and raises
  \<^verbatim>\<open>GraphicsError(UNSUPPORTED_METHOD)\<close> otherwise. A window is referred to by a
  reference (a natural number) into a store of windows; what the toolkit sends to the
  Tk canvas is not modelled.
\<close>

type_synonym config = "string \<rightharpoonup> string"

definition DEFAULT_CONFIG :: config where
  "DEFAULT_CONFIG =
     [''fill'' \<mapsto> [], ''outline'' \<mapsto> ''black'', ''width'' \<mapsto> ''1'', ''arrow'' \<mapsto> ''none'',
      ''text'' \<mapsto> [], ''justify'' \<mapsto> ''center'']"

record graphics_object =
  canvas :: "nat option"
  obj_id :: "nat option"
  config :: config

definition GraphicsObject_init_config :: "string list \<Rightarrow> config" where
  "GraphicsObject_init_config options = DEFAULT_CONFIG |` set options"

definition GraphicsObject_reconfig ::
  "'a graphics_object_scheme \<Rightarrow> string \<Rightarrow> string \<Rightarrow> error option \<times> 'a graphics_object_scheme" where
  "GraphicsObject_reconfig self option setting =
     (if option \<notin> dom (config self) then (Some (GraphicsError UNSUPPORTED_METHOD), self)
      else (None, self\<lparr>config := (config self)(option \<mapsto> setting)\<rparr>))"

definition GraphicsObject_setFill ::
  "'a graphics_object_scheme \<Rightarrow> string \<Rightarrow> error option \<times> 'a graphics_object_scheme" where
  "GraphicsObject_setFill self color = GraphicsObject_reconfig self ''fill'' color"

subsection \<open>class Point3d\<close>

record point3d = graphics_object +
  pt_x :: real
  pt_y :: real
  pt_z :: real

definition Point3d :: "real \<Rightarrow> real \<Rightarrow> real \<Rightarrow> point3d" where
  "Point3d x y z =
     \<lparr> canvas = None, obj_id = None,
       config = GraphicsObject_init_config [''outline'', ''fill''],
       pt_x = x, pt_y = y, pt_z = z \<rparr>"

text \<open>The method \<^verbatim>\<open>Point3d._move\<close>.\<close>

definition Point3d_move_impl :: "point3d \<Rightarrow> real \<Rightarrow> real \<Rightarrow> real \<Rightarrow> point3d" where
  "Point3d_move_impl self dx dy dz =
     self\<lparr> pt_x := pt_x self + dx, pt_y := pt_y self + dy, pt_z := pt_z self + dz \<rparr>"

definition Point3d_center3d :: "point3d \<Rightarrow> real \<times> real \<times> real" where
  "Point3d_center3d self = (pt_x self, pt_y self, pt_z self)"

text \<open>\<^verbatim>\<open>self.config.copy()\<close> is a new dictionary with the same entries: the same map.\<close>

definition Point3d_clone :: "point3d \<Rightarrow> point3d" where
  "Point3d_clone self =
     (let other = Point3d (pt_x self) (pt_y self) (pt_z self)
      in other\<lparr>config := config self\<rparr>)"

definition Point3d_toVector :: "point3d \<Rightarrow> vector" where
  "Point3d_toVector self = Vector (pt_x self) (pt_y self) (pt_z self)"

definition Vector_toPoint3d :: "vector \<Rightarrow> point3d" where
  "Vector_toPoint3d self = Point3d (getX self) (getY self) (getZ self)"

subsection \<open>class Line3d\<close>

record line3d = graphics_object +
  l_p1 :: point3d
  l_p2 :: point3d

text \<open>
  \<^verbatim>\<open>Line3d.__init__\<close> ends with \<^verbatim>\<open>self.setFill(DEFAULT_CONFIG["outline"])\<close>; a missing
  key or a refused option would propagate out of the constructor.
\<close>

definition Line3d :: "point3d \<Rightarrow> point3d \<Rightarrow> error + line3d" where
  "Line3d p1 p2 =
     (let self = \<lparr> canvas = None, obj_id = None,
                   config = GraphicsObject_init_config [''arrow'', ''fill'', ''width''],
                   l_p1 = Point3d_clone p1, l_p2 = Point3d_clone p2 \<rparr>
      in case DEFAULT_CONFIG ''outline'' of
           None \<Rightarrow> Inl (KeyError ''outline'')
         | Some color \<Rightarrow>
             (case GraphicsObject_setFill self color of
                (Some e, _) \<Rightarrow> Inl e
              | (None, self') \<Rightarrow> Inr self'))"

definition Line3d_center3d :: "line3d \<Rightarrow> real \<times> real \<times> real" where
  "Line3d_center3d self =
     (let p1 = l_p1 self; p2 = l_p2 self
      in (0.5 * (pt_x p1 + pt_x p2), 0.5 * (pt_y p1 + pt_y p2), 0.5 * (pt_z p1 + pt_z p2)))"

definition Line3d_setArrow :: "line3d \<Rightarrow> string \<Rightarrow> error option \<times> line3d" where
  "Line3d_setArrow self option =
     (if option \<notin> set [''first'', ''last'', ''both'', ''none'']
      then (Some (GraphicsError BAD_OPTION), self)
      else GraphicsObject_reconfig self ''arrow'' option)"

subsection \<open>class Triangle\<close>

record triangle = graphics_object +
  t_p1 :: point3d
  t_p2 :: point3d
  t_p3 :: point3d

definition Triangle :: "point3d \<Rightarrow> point3d \<Rightarrow> point3d \<Rightarrow> triangle" where
  "Triangle p1 p2 p3 =
     \<lparr> canvas = None, obj_id = None,
       config = GraphicsObject_init_config [''outline'', ''width'', ''fill''],
       t_p1 = Point3d_clone p1, t_p2 = Point3d_clone p2, t_p3 = Point3d_clone p3 \<rparr>"

definition Triangle_center3d :: "triangle \<Rightarrow> error + real \<times> real \<times> real" where
  "Triangle_center3d self =
     (let v1 = Point3d_toVector (t_p1 self);
          v2 = Point3d_toVector (t_p2 self);
          v3 = Point3d_toVector (t_p3 self)
      in case Vector_truediv (Vector_add (Vector_add v1 v2) v3) 3.0 of
           Inl e \<Rightarrow> Inl e
         | Inr vcenter \<Rightarrow> Inr (getX vcenter, getY vcenter, getZ vcenter))"

subsection \<open>Objects and windows\<close>

text \<open>
  An object a window can hold is an instance of one of the three 3D classes or of a class of
  the toolkit. Of a toolkit object the model keeps the class name, the 3D points handed to
  its constructor and the attributes of the base class; it has none of the methods of
  \<^verbatim>\<open>GraphicsObject3d\<close>.
\<close>

datatype gobject =
    Point3d_object point3d
  | Line3d_object line3d
  | Triangle_object triangle
  | Toolkit_object string "point3d list" graphics_object

text \<open>The attribute \<^verbatim>\<open>canvas\<close>, which every object has from the base class.\<close>

fun canvas_of :: "gobject \<Rightarrow> nat option" where
  "canvas_of (Point3d_object p) = canvas p"
| "canvas_of (Line3d_object l) = canvas l"
| "canvas_of (Triangle_object t) = canvas t"
| "canvas_of (Toolkit_object name args g) = canvas g"

text \<open>
  \<^verbatim>\<open>Line3d.clone\<close> and \<^verbatim>\<open>Triangle.clone\<close> call the toolkit's constructors
  \<^verbatim>\<open>Line\<close> and \<^verbatim>\<open>Polygon\<close>, not \<^verbatim>\<open>Line3d\<close> and \<^verbatim>\<open>Triangle\<close>; the new
  object is undrawn and gets a copy of \<^verbatim>\<open>self.config\<close>.
\<close>

definition Line3d_clone :: "line3d \<Rightarrow> gobject" where
  "Line3d_clone self =
     Toolkit_object ''Line'' [l_p1 self, l_p2 self]
       \<lparr> canvas = None, obj_id = None, config = config self \<rparr>"

definition Triangle_clone :: "triangle \<Rightarrow> gobject" where
  "Triangle_clone self =
     Toolkit_object ''Polygon'' [t_p1 self, t_p2 self, t_p3 self]
       \<lparr> canvas = None, obj_id = None, config = config self \<rparr>"

text \<open>
  \<^verbatim>\<open>GraphWin3d\<close>: the list \<^verbatim>\<open>items\<close> of drawn objects, the flags the toolkit keeps
  and the camera, \<open>None\<close> until \<^verbatim>\<open>setCamera\<close> is called.
\<close>

record graphwin3d =
  items :: "gobject list"
  closed :: bool
  autoflush :: bool
  cam :: "camera option"

definition GraphWin3d :: "bool \<Rightarrow> graphwin3d" where
  "GraphWin3d autoflush_arg =
     \<lparr> items = [], closed = False, autoflush = autoflush_arg, cam = None \<rparr>"

type_synonym windows = "nat \<Rightarrow> graphwin3d"

text \<open>The store in which every window is as its constructor leaves it.\<close>

definition new_windows :: windows where
  "new_windows w = GraphWin3d False"

definition isOpen :: "graphwin3d \<Rightarrow> bool" where
  "isOpen self = (\<not> closed self)"

definition GraphWin3d_toProjection ::
  "graphwin3d \<Rightarrow> real \<Rightarrow> real \<Rightarrow> real \<Rightarrow> real \<times> real \<times> real" where
  "GraphWin3d_toProjection self x y z =
     (case cam self of None \<Rightarrow> (x, y, z) | Some c \<Rightarrow> Camera_project c x y z)"

definition GraphWin3d_toInversion ::
  "graphwin3d \<Rightarrow> real \<Rightarrow> real \<Rightarrow> real \<Rightarrow> real \<times> real \<times> real" where
  "GraphWin3d_toInversion self xp yp zp =
     (case cam self of None \<Rightarrow> (xp, yp, zp) | Some c \<Rightarrow> Camera_invert c xp yp zp)"

subsection \<open>class GraphicsObject3d\<close>

text \<open>
  \<^verbatim>\<open>GraphicsObject3d.getDepth\<close>, given the attribute \<^verbatim>\<open>self.canvas\<close> and the result
  of the call \<^verbatim>\<open>self._center3d()\<close>, which each class overrides. With \<^verbatim>\<open>self.canvas\<close>
  equal to \<^verbatim>\<open>None\<close> the attribute lookup \<^verbatim>\<open>self.canvas.toProjection\<close> raises
  \<^verbatim>\<open>AttributeError\<close>.
\<close>

definition GraphicsObject3d_getDepth ::
  "windows \<Rightarrow> nat option \<Rightarrow> error + real \<times> real \<times> real \<Rightarrow> error + real" where
  "GraphicsObject3d_getDepth wins self_canvas self_center3d =
     (case self_center3d of
        Inl e \<Rightarrow> Inl e
      | Inr (x, y, z) \<Rightarrow>
          (case self_canvas of
             None \<Rightarrow> Inl (AttributeError ''toProjection'')
           | Some w \<Rightarrow>
               (case GraphWin3d_toProjection (wins w) x y z of (xp, yp, zp) \<Rightarrow> Inr zp)))"

text \<open>
  The call \<^verbatim>\<open>my_item.getDepth()\<close> on any object: only the 3D classes have the method.
\<close>

fun getDepth :: "windows \<Rightarrow> gobject \<Rightarrow> error + real" where
  "getDepth wins (Point3d_object p) =
     GraphicsObject3d_getDepth wins (canvas p) (Inr (Point3d_center3d p))"
| "getDepth wins (Line3d_object l) =
     GraphicsObject3d_getDepth wins (canvas l) (Inr (Line3d_center3d l))"
| "getDepth wins (Triangle_object t) =
     GraphicsObject3d_getDepth wins (canvas t) (Triangle_center3d t)"
| "getDepth wins (Toolkit_object name args g) = Inl (AttributeError ''getDepth'')"

text \<open>
  \<^verbatim>\<open>GraphicsObject3d.move\<close> after the call of \<^verbatim>\<open>self._move\<close>. On an open window with
  a camera, \<^verbatim>\<open>cam.toProjection\<close> is looked up on a \<^verbatim>\<open>Camera\<close>, which has the methods
  \<^verbatim>\<open>project\<close> and \<^verbatim>\<open>invert\<close> only; without a camera, \<^verbatim>\<open>x + dx\<close> reads the name
  \<^verbatim>\<open>x\<close>, which is bound neither in the method nor in the module. Both raise, so the
  rest of the method is never reached.
\<close>

definition GraphicsObject3d_move_screen :: "windows \<Rightarrow> nat option \<Rightarrow> error option" where
  "GraphicsObject3d_move_screen wins self_canvas =
     (case self_canvas of
        None \<Rightarrow> None
      | Some w \<Rightarrow>
          if isOpen (wins w) then
            (case cam (wins w) of
               Some c \<Rightarrow> Some (AttributeError ''toProjection'')
             | None \<Rightarrow> Some (NameError ''x''))
          else None)"

text \<open>
  \<^verbatim>\<open>move\<close> on each class: the object after the call, and the exception if one was
  raised. The coordinates are changed before the exception.
\<close>

definition Point3d_move ::
  "windows \<Rightarrow> point3d \<Rightarrow> real \<Rightarrow> real \<Rightarrow> real \<Rightarrow> error option \<times> point3d" where
  "Point3d_move wins self dx dy dz =
     (let self' = Point3d_move_impl self dx dy dz
      in (GraphicsObject3d_move_screen wins (canvas self'), self'))"

text \<open>The method \<^verbatim>\<open>Line3d._move\<close>.\<close>

definition Line3d_move_impl ::
  "windows \<Rightarrow> line3d \<Rightarrow> real \<Rightarrow> real \<Rightarrow> real \<Rightarrow> error option \<times> line3d" where
  "Line3d_move_impl wins self dx dy dz =
     (case Point3d_move wins (l_p1 self) dx dy dz of
        (Some e, q1) \<Rightarrow> (Some e, self\<lparr>l_p1 := q1\<rparr>)
      | (None, q1) \<Rightarrow>
          (case Point3d_move wins (l_p2 self) dx dy dz of
             (r, q2) \<Rightarrow> (r, self\<lparr>l_p1 := q1, l_p2 := q2\<rparr>)))"

definition Line3d_move ::
  "windows \<Rightarrow> line3d \<Rightarrow> real \<Rightarrow> real \<Rightarrow> real \<Rightarrow> error option \<times> line3d" where
  "Line3d_move wins self dx dy dz =
     (case Line3d_move_impl wins self dx dy dz of
        (Some e, self') \<Rightarrow> (Some e, self')
      | (None, self') \<Rightarrow> (GraphicsObject3d_move_screen wins (canvas self'), self'))"

text \<open>The method \<^verbatim>\<open>Triangle._move\<close>.\<close>

definition Triangle_move_impl ::
  "windows \<Rightarrow> triangle \<Rightarrow> real \<Rightarrow> real \<Rightarrow> real \<Rightarrow> error option \<times> triangle" where
  "Triangle_move_impl wins self dx dy dz =
     (case Point3d_move wins (t_p1 self) dx dy dz of
        (Some e, q1) \<Rightarrow> (Some e, self\<lparr>t_p1 := q1\<rparr>)
      | (None, q1) \<Rightarrow>
          (case Point3d_move wins (t_p2 self) dx dy dz of
             (Some e, q2) \<Rightarrow> (Some e, self\<lparr>t_p1 := q1, t_p2 := q2\<rparr>)
           | (None, q2) \<Rightarrow>
               (case Point3d_move wins (t_p3 self) dx dy dz of
                  (r, q3) \<Rightarrow> (r, self\<lparr>t_p1 := q1, t_p2 := q2, t_p3 := q3\<rparr>))))"

definition Triangle_move ::
  "windows \<Rightarrow> triangle \<Rightarrow> real \<Rightarrow> real \<Rightarrow> real \<Rightarrow> error option \<times> triangle" where
  "Triangle_move wins self dx dy dz =
     (case Triangle_move_impl wins self dx dy dz of
        (Some e, self') \<Rightarrow> (Some e, self')
      | (None, self') \<Rightarrow> (GraphicsObject3d_move_screen wins (canvas self'), self'))"

subsection \<open>GraphWin3d.redraw\<close>

text \<open>
  The sort key \<^verbatim>\<open>depth\<close> local to \<^verbatim>\<open>redraw\<close>. \<open>None\<close> stands for
  \<^verbatim>\<open>float("-inf")\<close>, below every \<open>Some d\<close> in the order on \<open>real option\<close>. Only
  \<^verbatim>\<open>AttributeError\<close> is caught.
\<close>

definition depth :: "windows \<Rightarrow> gobject \<Rightarrow> error + real option" where
  "depth wins my_item =
     (case getDepth wins my_item of
        Inr d \<Rightarrow> Inr (Some d)
      | Inl (AttributeError a) \<Rightarrow> Inr None
      | Inl e \<Rightarrow> Inl e)"

text \<open>
  The builtin \<^verbatim>\<open>sorted(iterable, key=..., reverse=...)\<close>: the key of every element is
  computed once, in list order, before any comparison, and an exception of the key function
  leaves \<^verbatim>\<open>sorted\<close>. The sort is stable; with \<^verbatim>\<open>reverse=True\<close> the list is reversed,
  sorted stably in ascending order and reversed again, so that elements with equal keys keep
  their original order.
\<close>

fun decorate :: "('a \<Rightarrow> error + 'k) \<Rightarrow> 'a list \<Rightarrow> error + ('k \<times> 'a) list" where
  "decorate key [] = Inr []"
| "decorate key (x # xs) =
     (case key x of
        Inl e \<Rightarrow> Inl e
      | Inr k \<Rightarrow> (case decorate key xs of Inl e \<Rightarrow> Inl e | Inr kxs \<Rightarrow> Inr ((k, x) # kxs)))"

definition sorted_py ::
  "'a list \<Rightarrow> ('a \<Rightarrow> error + 'k :: linorder) \<Rightarrow> bool \<Rightarrow> error + 'a list" where
  "sorted_py xs key reverse =
     (case decorate key xs of
        Inl e \<Rightarrow> Inl e
      | Inr kxs \<Rightarrow>
          Inr (map snd (if reverse then rev (sort_key fst (rev kxs)) else sort_key fst kxs)))"

text \<open>
  \<^verbatim>\<open>undraw\<close>, \<^verbatim>\<open>draw\<close> and \<^verbatim>\<open>update\<close> belong to the toolkit. \<^verbatim>\<open>redraw\<close> is
  modelled by the sequence of these calls it makes.
\<close>

datatype event = Undraw gobject | Draw gobject nat | Update nat

definition GraphWin3d_redraw :: "windows \<Rightarrow> nat \<Rightarrow> error + event list" where
  "GraphWin3d_redraw wins self =
     (case sorted_py (items (wins self)) (depth wins) True of
        Inl e \<Rightarrow> Inl e
      | Inr sorted_items \<Rightarrow>
          Inr (concat (map (\<lambda>item. [Undraw item, Draw item self]) sorted_items)
               @ [Update self]))"

subsection \<open>make_pizza_polygon\<close>

definition make_pizza_polygon :: "point3d list \<Rightarrow> error + triangle list" where
  "make_pizza_polygon points =
     (if \<not> length points \<ge> 3
      then Inl (AssertionError ''Make pizza polygon needs 3 or more points'')
      else
        let center = foldl (\<lambda>center pt. Vector_add center (Point3d_toVector pt))
                       (Vector 0 0 0) points
        in case Vector_truediv center (real (length points)) of
             Inl e \<Rightarrow> Inl e
           | Inr q \<Rightarrow>
               let pcenter = Vector_toPoint3d q
               in Inr (map (\<lambda>i. let ii = (i + 1) mod length points
                                 in Triangle (points ! i) (points ! ii) pcenter)
                        [0 ..< length points]))"

section \<open>Properties\<close>

subsection \<open>Camera\<close>


lemma Camera_ux:
  "ux (Camera a b c) =
     Vector (- (cos (radians c) * sin (radians a)) + sin (radians c) * (sin (radians b) * cos (radians a)))
            (cos (radians c) * cos (radians a) + sin (radians c) * (sin (radians b) * sin (radians a)))
            (- (sin (radians c) * cos (radians b)))"
  by (simp add: Camera_def Let_def Vector_add_def Vector_rmul_def Vector_mul_def Vector_copy_def)

lemma Camera_uy:
  "uy (Camera a b c) =
     Vector (sin (radians c) * sin (radians a) + cos (radians c) * (sin (radians b) * cos (radians a)))
            (- (sin (radians c) * cos (radians a)) + cos (radians c) * (sin (radians b) * sin (radians a)))
            (- (cos (radians c) * cos (radians b)))"
  by (simp add: Camera_def Let_def Vector_add_def Vector_rmul_def Vector_mul_def Vector_copy_def)

lemma Camera_uz:
  "uz (Camera a b c) =
     Vector (- (cos (radians b) * cos (radians a)))
            (- (cos (radians b) * sin (radians a)))
            (- sin (radians b))"
  by (simp add: Camera_def Let_def Vector_add_def Vector_rmul_def Vector_mul_def Vector_copy_def)

lemma Vector_mag_sqrt: "Vector_mag v = sqrt ((getX v)\<^sup>2 + (getY v)\<^sup>2 + (getZ v)\<^sup>2)"
  by (simp add: Vector_mag_def hypot_def)

lemma basis_dot_zero:
  fixes sz cz sl cl sr cr :: real
  assumes "sz\<^sup>2 + cz\<^sup>2 = 1" "sl\<^sup>2 + cl\<^sup>2 = 1" "sr\<^sup>2 + cr\<^sup>2 = 1"
  shows "(- (cr * sz) + sr * (sl * cz)) * (sr * sz + cr * (sl * cz)) +
         (cr * cz + sr * (sl * sz)) * (- (sr * cz) + cr * (sl * sz)) +
         (- (sr * cl)) * (- (cr * cl)) = 0"
    and "(- (cr * sz) + sr * (sl * cz)) * (- (cl * cz)) +
         (cr * cz + sr * (sl * sz)) * (- (cl * sz)) +
         (- (sr * cl)) * (- sl) = 0"
    and "(sr * sz + cr * (sl * cz)) * (- (cl * cz)) +
         (- (sr * cz) + cr * (sl * sz)) * (- (cl * sz)) +
         (- (cr * cl)) * (- sl) = 0"
  using assms by algebra+

lemma basis_norm_one:
  fixes sz cz sl cl sr cr :: real
  assumes "sz\<^sup>2 + cz\<^sup>2 = 1" "sl\<^sup>2 + cl\<^sup>2 = 1" "sr\<^sup>2 + cr\<^sup>2 = 1"
  shows "(- (cr * sz) + sr * (sl * cz))\<^sup>2 + (cr * cz + sr * (sl * sz))\<^sup>2 + (- (sr * cl))\<^sup>2 = 1"
    and "(sr * sz + cr * (sl * cz))\<^sup>2 + (- (sr * cz) + cr * (sl * sz))\<^sup>2 + (- (cr * cl))\<^sup>2 = 1"
    and "(- (cl * cz))\<^sup>2 + (- (cl * sz))\<^sup>2 + (- sl)\<^sup>2 = 1"
  using assms by algebra+

lemma basis_transpose:
  fixes sz cz sl cl sr cr x y z :: real
  assumes "sz\<^sup>2 + cz\<^sup>2 = 1" "sl\<^sup>2 + cl\<^sup>2 = 1" "sr\<^sup>2 + cr\<^sup>2 = 1"
  defines "a1 \<equiv> - (cr * sz) + sr * (sl * cz)" and "a2 \<equiv> cr * cz + sr * (sl * sz)"
    and "a3 \<equiv> - (sr * cl)"
    and "b1 \<equiv> sr * sz + cr * (sl * cz)" and "b2 \<equiv> - (sr * cz) + cr * (sl * sz)"
    and "b3 \<equiv> - (cr * cl)"
    and "c1 \<equiv> - (cl * cz)" and "c2 \<equiv> - (cl * sz)" and "c3 \<equiv> - sl"
  shows "(x * a1 + y * a2 + z * a3) * a1 + (x * b1 + y * b2 + z * b3) * b1
           + (x * c1 + y * c2 + z * c3) * c1 = x"
    and "(x * a1 + y * a2 + z * a3) * a2 + (x * b1 + y * b2 + z * b3) * b2
           + (x * c1 + y * c2 + z * c3) * c2 = y"
    and "(x * a1 + y * a2 + z * a3) * a3 + (x * b1 + y * b2 + z * b3) * b3
           + (x * c1 + y * c2 + z * c3) * c3 = z"
  unfolding a1_def a2_def a3_def b1_def b2_def b3_def c1_def c2_def c3_def
  using assms(1-3) by algebra+

text \<open>
  Claim C1, as the code has it: with azimuth, altitude and roll all zero, \<^verbatim>\<open>project\<close>
  maps every world point \<open>(x, y, z)\<close> to \<open>(y, - z, - x)\<close>. The second projected
  coordinate is \<open>- z\<close>, since the initial vector \<^verbatim>\<open>uy0\<close> is \<open>(0, 0, -1)\<close>; the claim's
  \<open>(y, z, - x)\<close> does not hold.
\<close>

theorem Camera_project_zero_angles:
  "Camera_project (Camera 0 0 0) x y z = (y, - z, - x)"
  by (simp add: Camera_project_def Camera_ux Camera_uy Camera_uz radians_def Vector_dot_def)

text \<open>
  Claim C1 as stated fails at the world point \<open>(0, 0, 1)\<close>: the claim gives
  \<open>(0, 1, 0)\<close>, the code \<open>(0, - 1, 0)\<close>.
\<close>

theorem Camera_project_zero_angles_counterexample:
  "Camera_project (Camera 0 0 0) 0 0 1 \<noteq> (0, 1, - 0)"
  by (simp add: Camera_project_def Camera_ux Camera_uy Camera_uz radians_def Vector_dot_def)

text \<open>
  Claim C2: for a camera built from any three angles and any world point, \<^verbatim>\<open>invert\<close>
  applied to the result of \<^verbatim>\<open>project\<close> gives the point back (over real arithmetic).
\<close>

theorem Camera_invert_project:
  "(case Camera_project (Camera az alt roll) x y z of
      (xp, yp, zp) \<Rightarrow> Camera_invert (Camera az alt roll) xp yp zp) = (x, y, z)"
proof -
  have t: "(sin (radians az))\<^sup>2 + (cos (radians az))\<^sup>2 = 1"
          "(sin (radians alt))\<^sup>2 + (cos (radians alt))\<^sup>2 = 1"
          "(sin (radians roll))\<^sup>2 + (cos (radians roll))\<^sup>2 = 1"
    by simp_all
  show ?thesis
    using basis_transpose [OF t, of x y z]
    by (simp add: Camera_project_def Camera_invert_def Camera_ux Camera_uy Camera_uz
        Vector_dot_def Vector_add_def Vector_rmul_def Vector_mul_def mult.commute)
qed

text \<open>
  Claim C3: for any three angles the basis vectors \<^verbatim>\<open>ux\<close>, \<^verbatim>\<open>uy\<close>, \<^verbatim>\<open>uz\<close> of the
  camera are pairwise orthogonal and each has magnitude 1 (over real arithmetic).
\<close>

theorem Camera_basis_orthonormal:
  "Vector_dot (ux (Camera az alt roll)) (uy (Camera az alt roll)) = 0 \<and>
   Vector_dot (ux (Camera az alt roll)) (uz (Camera az alt roll)) = 0 \<and>
   Vector_dot (uy (Camera az alt roll)) (uz (Camera az alt roll)) = 0 \<and>
   Vector_mag (ux (Camera az alt roll)) = 1 \<and>
   Vector_mag (uy (Camera az alt roll)) = 1 \<and>
   Vector_mag (uz (Camera az alt roll)) = 1"
proof -
  have t: "(sin (radians az))\<^sup>2 + (cos (radians az))\<^sup>2 = 1"
          "(sin (radians alt))\<^sup>2 + (cos (radians alt))\<^sup>2 = 1"
          "(sin (radians roll))\<^sup>2 + (cos (radians roll))\<^sup>2 = 1"
    by simp_all
  show ?thesis
    using basis_dot_zero [OF t] basis_norm_one [OF t]
    by (simp add: Camera_ux Camera_uy Camera_uz Vector_dot_def Vector_mag_sqrt)
qed


subsection \<open>Fan triangulation\<close>


lemma foldl_center:
  "foldl (\<lambda>center pt. Vector_add center (Point3d_toVector pt)) (Vector a b c) points =
     Vector (a + sum_list (map pt_x points)) (b + sum_list (map pt_y points))
            (c + sum_list (map pt_z points))"
  by (induction points arbitrary: a b c)
     (simp_all add: Vector_add_def Point3d_toVector_def add.assoc)

lemma make_pizza_polygon_Inr:
  assumes "3 \<le> length points"
  shows "make_pizza_polygon points =
     Inr (map (\<lambda>i. Triangle (points ! i) (points ! ((i + 1) mod length points))
                     (Point3d (sum_list (map pt_x points) / real (length points))
                              (sum_list (map pt_y points) / real (length points))
                              (sum_list (map pt_z points) / real (length points))))
           [0 ..< length points])"
proof -
  from assms have "points \<noteq> []" by auto
  with assms show ?thesis
    by (simp add: make_pizza_polygon_def foldl_center Vector_truediv_def Vector_rmul_def
        Vector_mul_def Vector_toPoint3d_def Let_def)
qed

lemma Point3d_clone_center3d: "Point3d_center3d (Point3d_clone p) = Point3d_center3d p"
  by (simp add: Point3d_center3d_def Point3d_clone_def Point3d_def)

text \<open>
  Claim C5: for \<open>N \<ge> 3\<close> input points \<^verbatim>\<open>make_pizza_polygon\<close> returns exactly \<open>N\<close>
  triangles; the \<open>i\<close>-th one is the \<^verbatim>\<open>Triangle\<close> built from input point \<open>i\<close>, input
  point \<open>(i + 1) mod N\<close> and the hub, and the hub is the arithmetic mean of the input points.
  The triangle keeps clones of its three points, with the same coordinates.
\<close>

theorem make_pizza_polygon_fan:
  assumes "3 \<le> length points"
  shows "\<exists>slices hub.
     make_pizza_polygon points = Inr slices \<and>
     length slices = length points \<and>
     hub = Point3d (sum_list (map pt_x points) / real (length points))
                   (sum_list (map pt_y points) / real (length points))
                   (sum_list (map pt_z points) / real (length points)) \<and>
     (\<forall>i < length points.
        slices ! i = Triangle (points ! i) (points ! ((i + 1) mod length points)) hub \<and>
        Point3d_center3d (t_p1 (slices ! i)) = Point3d_center3d (points ! i) \<and>
        Point3d_center3d (t_p2 (slices ! i)) =
          Point3d_center3d (points ! ((i + 1) mod length points)) \<and>
        Point3d_center3d (t_p3 (slices ! i)) = Point3d_center3d hub)"
  by (simp add: make_pizza_polygon_Inr [OF assms] Triangle_def Point3d_clone_center3d)

theorem make_pizza_polygon_fan_witness:
  "\<exists>slices. make_pizza_polygon [Point3d 0 0 0, Point3d 3 0 0, Point3d 0 3 0] = Inr slices \<and>
     length slices = 3 \<and>
     slices ! 2 = Triangle (Point3d 0 3 0) (Point3d 0 0 0) (Point3d 1 1 0)"
  using make_pizza_polygon_fan [of "[Point3d 0 0 0, Point3d 3 0 0, Point3d 0 3 0]"]
  by (auto simp: Point3d_def)

text \<open>
  Claim C6: with fewer than 3 points \<^verbatim>\<open>make_pizza_polygon\<close> fails on its assertion and
  returns nothing; with 3 or more points it returns a list of triangles.
\<close>

theorem make_pizza_polygon_assert:
  "(length points < 3 \<longrightarrow>
      make_pizza_polygon points = Inl (AssertionError ''Make pizza polygon needs 3 or more points''))
   \<and> (3 \<le> length points \<longrightarrow> (\<exists>slices. make_pizza_polygon points = Inr slices))"
  by (simp add: make_pizza_polygon_Inr) (simp add: make_pizza_polygon_def)

theorem make_pizza_polygon_assert_witness:
  "make_pizza_polygon [Point3d 0 0 0, Point3d 3 0 0] =
     Inl (AssertionError ''Make pizza polygon needs 3 or more points'')
   \<and> (\<exists>slices. make_pizza_polygon [Point3d 0 0 0, Point3d 3 0 0, Point3d 0 3 0] = Inr slices)"
  using make_pizza_polygon_assert [of "[Point3d 0 0 0, Point3d 3 0 0]"]
        make_pizza_polygon_assert [of "[Point3d 0 0 0, Point3d 3 0 0, Point3d 0 3 0]"]
  by simp


subsection \<open>Depth and redraw\<close>


lemma Triangle_center3d_Inr:
  "Triangle_center3d t =
     Inr (1 / 3 * (pt_x (t_p1 t) + pt_x (t_p2 t) + pt_x (t_p3 t)),
          1 / 3 * (pt_y (t_p1 t) + pt_y (t_p2 t) + pt_y (t_p3 t)),
          1 / 3 * (pt_z (t_p1 t) + pt_z (t_p2 t) + pt_z (t_p3 t)))"
  by (simp add: Triangle_center3d_def Vector_truediv_def Vector_rmul_def Vector_mul_def
      Vector_add_def Point3d_toVector_def Let_def)

lemma getDepth_errors: "getDepth wins self = Inl e \<Longrightarrow> \<exists>a. e = AttributeError a"
  by (cases self)
     (auto simp: GraphicsObject3d_getDepth_def Triangle_center3d_Inr
       split: option.splits prod.splits)

lemma depth_Inr: "\<exists>k. depth wins self = Inr k"
proof (cases "getDepth wins self")
  case (Inl e)
  with getDepth_errors [OF Inl] show ?thesis by (auto simp: depth_def)
next
  case (Inr d)
  then show ?thesis by (simp add: depth_def)
qed

lemma insort_key_decorated:
  "insort_key fst (k x, x) (map (\<lambda>y. (k y, y)) ys) = map (\<lambda>y. (k y, y)) (insort_key k x ys)"
  by (induction ys) simp_all

lemma sort_key_decorated:
  "sort_key fst (map (\<lambda>y. (k y, y)) ys) = map (\<lambda>y. (k y, y)) (sort_key k ys)"
  by (induction ys) (simp_all add: insort_key_decorated)

lemma decorate_Inr:
  "(\<And>x. x \<in> set xs \<Longrightarrow> key x = Inr (k x)) \<Longrightarrow> decorate key xs = Inr (map (\<lambda>y. (k y, y)) xs)"
  by (induction xs) simp_all

lemma sorted_py_reverse:
  assumes "\<And>x. x \<in> set xs \<Longrightarrow> key x = Inr (k x)"
  shows "sorted_py xs key True = Inr (rev (sort_key k (rev xs)))"
proof -
  have "rev (map (\<lambda>y. (k y, y)) xs) = map (\<lambda>y. (k y, y)) (rev xs)"
    by (simp add: rev_map)
  then have "sort_key fst (rev (map (\<lambda>y. (k y, y)) xs)) =
             map (\<lambda>y. (k y, y)) (sort_key k (rev xs))"
    by (simp only: sort_key_decorated)
  then have "map snd (rev (sort_key fst (rev (map (\<lambda>y. (k y, y)) xs)))) =
             rev (sort_key k (rev xs))"
    by (simp add: rev_map o_def)
  then show ?thesis
    by (simp add: sorted_py_def decorate_Inr [OF assms])
qed

lemma reverse_sort_stable:
  "filter (\<lambda>y. k y = c) (rev (sort_key k (rev xs))) = filter (\<lambda>y. k y = c) xs"
  by (simp add: rev_filter [symmetric] sort_key_stable)

lemma reverse_sort_descending:
  assumes "i < length xs" "j < length xs"
    and "k (rev (sort_key k (rev xs)) ! j) < k (rev (sort_key k (rev xs)) ! i)"
  shows "i < j"
proof (rule ccontr)
  let ?ys = "rev (sort_key k (rev xs))"
  assume "\<not> i < j"
  then have ji: "j \<le> i" by simp
  have "sorted (rev (map k ?ys))"
    by (simp add: rev_map [symmetric])
  then have "map k ?ys ! i \<le> map k ?ys ! j"
    using ji assms(1) by (simp add: sorted_rev_iff_nth_mono)
  then have "k (?ys ! i) \<le> k (?ys ! j)"
    using assms(1,2) by simp
  with assms(3) show False by simp
qed

text \<open>
  Claim C4: \<^verbatim>\<open>redraw\<close> undraws and draws every item of the window once, in stable
  descending order of the depth key: the processed list is a permutation of \<^verbatim>\<open>items\<close>,
  items with equal keys keep their order, an item with a greater key is drawn before an
  item with a smaller one, and a toolkit (2D) object, keyed \<open>-\<infinity>\<close>, is drawn after every
  3D object that has a depth.
\<close>

theorem GraphWin3d_redraw_order:
  "\<exists>sorted_items.
     GraphWin3d_redraw wins self =
       Inr (concat (map (\<lambda>item. [Undraw item, Draw item self]) sorted_items) @ [Update self]) \<and>
     mset sorted_items = mset (items (wins self)) \<and>
     (\<forall>k. filter (\<lambda>item. depth wins item = Inr k) sorted_items =
          filter (\<lambda>item. depth wins item = Inr k) (items (wins self))) \<and>
     (\<forall>i j d1 d2. i < length sorted_items \<and> j < length sorted_items \<and>
          depth wins (sorted_items ! i) = Inr d1 \<and> depth wins (sorted_items ! j) = Inr d2 \<and>
          d2 < d1 \<longrightarrow> i < j) \<and>
     (\<forall>i j. i < length sorted_items \<and> j < length sorted_items \<and>
          (\<exists>d. getDepth wins (sorted_items ! i) = Inr d) \<and>
          (\<exists>name args g. sorted_items ! j = Toolkit_object name args g) \<longrightarrow> i < j)"
proof -
  define k where "k = (\<lambda>item. projr (depth wins item))"
  have key: "depth wins item = Inr (k item)" for item
    using depth_Inr [of wins item] by (auto simp: k_def)
  define its where "its = rev (sort_key k (rev (items (wins self))))"
  have len: "length its = length (items (wins self))"
    by (simp add: its_def)
  have r: "GraphWin3d_redraw wins self =
       Inr (concat (map (\<lambda>item. [Undraw item, Draw item self]) its) @ [Update self])"
    by (simp add: GraphWin3d_redraw_def sorted_py_reverse [of _ "depth wins" k, OF key] its_def)
  have m: "mset its = mset (items (wins self))"
    by (simp add: its_def)
  have s: "filter (\<lambda>item. depth wins item = Inr c) its =
           filter (\<lambda>item. depth wins item = Inr c) (items (wins self))" for c
    using reverse_sort_stable [of k c "items (wins self)"] by (simp add: key its_def)
  have d: "i < j" if "i < length its" "j < length its" "depth wins (its ! i) = Inr d1"
    "depth wins (its ! j) = Inr d2" "d2 < d1" for i j d1 d2
    using that reverse_sort_descending [of i "items (wins self)" j k]
    by (simp add: key its_def)
  have t: "i < j" if "i < length its" "j < length its" "getDepth wins (its ! i) = Inr x"
    "its ! j = Toolkit_object name args g" for i j x name args g
  proof -
    have "depth wins (its ! i) = Inr (Some x)" using that(3) by (simp add: depth_def)
    moreover have "depth wins (its ! j) = Inr None" using that(4) by (simp add: depth_def)
    ultimately show ?thesis using d [OF that(1,2)] by simp
  qed
  show ?thesis
    using r m s d t by blast
qed


theorem GraphWin3d_redraw_order_witness:
  "let P5 = Point3d_object ((Point3d 0 0 5)\<lparr>canvas := Some 0\<rparr>);
       P1 = Point3d_object ((Point3d 0 0 1)\<lparr>canvas := Some 0\<rparr>);
       P3 = Point3d_object ((Point3d 0 0 3)\<lparr>canvas := Some 0\<rparr>);
       C = Toolkit_object ''Circle'' []
             \<lparr>canvas = Some 0, obj_id = None, config = GraphicsObject_init_config [''fill'']\<rparr>;
       wins = new_windows (0 := (GraphWin3d False)\<lparr>items := [C, P5, P1, P3]\<rparr>)
   in depth wins P5 = Inr (Some 5) \<and> depth wins P1 = Inr (Some 1) \<and>
      depth wins P3 = Inr (Some 3) \<and> depth wins C = Inr None \<and>
      GraphWin3d_redraw wins 0 =
        Inr [Undraw P5, Draw P5 0, Undraw P3, Draw P3 0, Undraw P1, Draw P1 0,
             Undraw C, Draw C 0, Update 0]"
  using GraphWin3d_redraw_order
    [of "new_windows (0 := (GraphWin3d False)\<lparr>items :=
          [Toolkit_object ''Circle'' []
             \<lparr>canvas = Some 0, obj_id = None, config = GraphicsObject_init_config [''fill'']\<rparr>,
           Point3d_object ((Point3d 0 0 5)\<lparr>canvas := Some 0\<rparr>),
           Point3d_object ((Point3d 0 0 1)\<lparr>canvas := Some 0\<rparr>),
           Point3d_object ((Point3d 0 0 3)\<lparr>canvas := Some 0\<rparr>)]\<rparr>)" 0]
  by (simp add: Let_def GraphWin3d_redraw_def sorted_py_def depth_def
      GraphicsObject3d_getDepth_def Point3d_center3d_def Point3d_def GraphWin3d_def
      GraphWin3d_toProjection_def)

subsection \<open>Arrow mode, move, clone and detached objects\<close>


lemma Line3d_Inr:
  "\<exists>self. Line3d p1 p2 = Inr self \<and> canvas self = None \<and>
     config self ''arrow'' = Some ''none'' \<and>
     l_p1 self = Point3d_clone p1 \<and> l_p2 self = Point3d_clone p2"
  by (simp add: Line3d_def DEFAULT_CONFIG_def GraphicsObject_setFill_def
      GraphicsObject_reconfig_def GraphicsObject_init_config_def Let_def restrict_map_def
      domIff)

text \<open>
  Every \<^verbatim>\<open>Line3d\<close> has the option \<^verbatim>\<open>arrow\<close>: the constructor puts it into
  \<^verbatim>\<open>config\<close>, and \<^verbatim>\<open>_reconfig\<close> never adds or removes an option name.
\<close>

lemma Line3d_has_arrow: "Line3d p1 p2 = Inr self \<Longrightarrow> ''arrow'' \<in> dom (config self)"
  using Line3d_Inr [of p1 p2] by auto

lemma GraphicsObject_reconfig_dom:
  "dom (config (snd (GraphicsObject_reconfig self option setting))) = dom (config self)"
  by (auto simp: GraphicsObject_reconfig_def)

lemma Line3d_setArrow_dom:
  "dom (config (snd (Line3d_setArrow self option))) = dom (config self)"
  by (simp add: Line3d_setArrow_def GraphicsObject_reconfig_dom)

text \<open>
  Claim C9: on a \<^verbatim>\<open>Line3d\<close> (whose \<^verbatim>\<open>config\<close> has the option \<^verbatim>\<open>arrow\<close>),
  \<^verbatim>\<open>setArrow\<close> stores the value when it is one of \<^verbatim>\<open>none\<close>, \<^verbatim>\<open>first\<close>,
  \<^verbatim>\<open>last\<close>, \<^verbatim>\<open>both\<close>; for any other value it raises \<^verbatim>\<open>GraphicsError(BAD_OPTION)\<close>
  and leaves the object, and so its arrow mode, as it was.
\<close>

theorem Line3d_setArrow_options:
  assumes "''arrow'' \<in> dom (config self)"
  shows "(option \<in> {''none'', ''first'', ''last'', ''both''} \<longrightarrow>
            Line3d_setArrow self option =
              (None, self\<lparr>config := (config self)(''arrow'' \<mapsto> option)\<rparr>)) \<and>
         (option \<notin> {''none'', ''first'', ''last'', ''both''} \<longrightarrow>
            Line3d_setArrow self option = (Some (GraphicsError BAD_OPTION), self))"
  using assms by (auto simp: Line3d_setArrow_def GraphicsObject_reconfig_def)

theorem Line3d_setArrow_options_witness:
  "\<exists>self. Line3d (Point3d 0 0 0) (Point3d 1 1 1) = Inr self \<and>
     Line3d_setArrow self ''both'' = (None, self\<lparr>config := (config self)(''arrow'' \<mapsto> ''both'')\<rparr>) \<and>
     Line3d_setArrow self ''diagonal'' = (Some (GraphicsError BAD_OPTION), self) \<and>
     config (snd (Line3d_setArrow self ''diagonal'')) ''arrow'' = Some ''none''"
proof -
  obtain self where s: "Line3d (Point3d 0 0 0) (Point3d 1 1 1) = Inr self"
    "config self ''arrow'' = Some ''none''"
    using Line3d_Inr by blast
  then have d: "''arrow'' \<in> dom (config self)" by auto
  show ?thesis
    using s Line3d_setArrow_options [OF d, of "''both''"]
      Line3d_setArrow_options [OF d, of "''diagonal''"]
    by simp
qed

text \<open>
  Claim C7 at a point drawn on an open window: \<^verbatim>\<open>move\<close> translates the coordinates and
  then raises, \<^verbatim>\<open>NameError\<close> on a window without a camera and \<^verbatim>\<open>AttributeError\<close> on
  a window with one; no incremental screen move is reached.
\<close>

theorem Point3d_move_drawn_raises:
  "Point3d_move new_windows ((Point3d 1 2 3)\<lparr>canvas := Some 0\<rparr>) 1 0 0 =
     (Some (NameError ''x''), (Point3d 2 2 3)\<lparr>canvas := Some 0\<rparr>) \<and>
   Point3d_move (new_windows (0 := (GraphWin3d False)\<lparr>cam := Some (Camera 0 0 0)\<rparr>))
       ((Point3d 1 2 3)\<lparr>canvas := Some 0\<rparr>) 1 0 0 =
     (Some (AttributeError ''toProjection''), (Point3d 2 2 3)\<lparr>canvas := Some 0\<rparr>)"
  by (simp add: Point3d_move_def Point3d_move_impl_def GraphicsObject3d_move_screen_def
      new_windows_def GraphWin3d_def isOpen_def Point3d_def)

lemma Point3d_move_undrawn:
  "canvas self = None \<Longrightarrow>
     Point3d_move wins self dx dy dz =
       (None, self\<lparr>pt_x := pt_x self + dx, pt_y := pt_y self + dy, pt_z := pt_z self + dz\<rparr>)"
  by (simp add: Point3d_move_def Point3d_move_impl_def GraphicsObject3d_move_screen_def)

lemma Point3d_move_open_window:
  "canvas self = Some w \<Longrightarrow> isOpen (wins w) \<Longrightarrow>
     \<exists>e. fst (Point3d_move wins self dx dy dz) = Some e"
  by (simp add: Point3d_move_def Point3d_move_impl_def GraphicsObject3d_move_screen_def
      split: option.splits)

text \<open>
  Claim C10 at concrete objects: the clone of a \<^verbatim>\<open>Point3d\<close> is a \<^verbatim>\<open>Point3d\<close>, but the
  clone of a \<^verbatim>\<open>Line3d\<close> is an object of the toolkit class \<^verbatim>\<open>Line\<close> and the clone of a
  \<^verbatim>\<open>Triangle\<close> an object of the toolkit class \<^verbatim>\<open>Polygon\<close>.
\<close>

theorem clone_kind:
  "Point3d_clone (Point3d 1 2 3) = Point3d 1 2 3 \<and>
   (\<exists>self. Line3d (Point3d 0 0 0) (Point3d 1 1 1) = Inr self \<and>
      Line3d_clone self =
        Toolkit_object ''Line'' [Point3d 0 0 0, Point3d 1 1 1]
          \<lparr>canvas = None, obj_id = None, config = config self\<rparr>) \<and>
   Triangle_clone (Triangle (Point3d 0 0 0) (Point3d 1 0 0) (Point3d 0 1 0)) =
     Toolkit_object ''Polygon'' [Point3d 0 0 0, Point3d 1 0 0, Point3d 0 1 0]
       \<lparr>canvas = None, obj_id = None,
         config = config (Triangle (Point3d 0 0 0) (Point3d 1 0 0) (Point3d 0 1 0))\<rparr>"
proof -
  obtain self where s: "Line3d (Point3d 0 0 0) (Point3d 1 1 1) = Inr self"
    "l_p1 self = Point3d_clone (Point3d 0 0 0)" "l_p2 self = Point3d_clone (Point3d 1 1 1)"
    using Line3d_Inr by blast
  have c: "\<And>x y z. Point3d_clone (Point3d x y z) = Point3d x y z"
    by (simp add: Point3d_clone_def Point3d_def)
  show ?thesis
    using s by (simp add: c Line3d_clone_def Triangle_clone_def Triangle_def)
qed

lemma Point3d_clone_copy:
  "Point3d_clone self = self\<lparr>canvas := None, obj_id := None\<rparr>"
  by (simp add: Point3d_clone_def Point3d_def)

text \<open>
  Claim C8 as stated fails at a point that was never drawn: \<^verbatim>\<open>getDepth\<close> raises
  \<^verbatim>\<open>AttributeError\<close>.
\<close>

theorem getDepth_detached_counterexample:
  "getDepth new_windows (Point3d_object (Point3d 1 2 3)) = Inl (AttributeError ''toProjection'')"
  by (simp add: GraphicsObject3d_getDepth_def Point3d_center3d_def Point3d_def)

text \<open>
  Claim C8, as the code has it: on an object whose \<^verbatim>\<open>canvas\<close> is \<^verbatim>\<open>None\<close>,
  \<^verbatim>\<open>getDepth\<close> raises \<^verbatim>\<open>AttributeError\<close>, and the sort key of \<^verbatim>\<open>redraw\<close> turns
  that into \<open>-\<infinity>\<close>. The projection is the identity when the object is drawn on a window
  without a camera: the depth is then the \<open>z\<close> coordinate of the object's centre.
\<close>

theorem getDepth_detached:
  "(canvas_of self = None \<longrightarrow>
      (\<exists>a. getDepth wins self = Inl (AttributeError a)) \<and> depth wins self = Inr None) \<and>
   (\<forall>w. canvas_of self = Some w \<and> cam (wins w) = None \<longrightarrow>
      (\<forall>p. self = Point3d_object p \<longrightarrow> getDepth wins self = Inr (pt_z p)) \<and>
      (\<forall>l. self = Line3d_object l \<longrightarrow>
         getDepth wins self = Inr (0.5 * (pt_z (l_p1 l) + pt_z (l_p2 l)))) \<and>
      (\<forall>t. self = Triangle_object t \<longrightarrow>
         getDepth wins self = Inr (1 / 3 * (pt_z (t_p1 t) + pt_z (t_p2 t) + pt_z (t_p3 t)))))"
  by (cases self)
     (auto simp: GraphicsObject3d_getDepth_def Triangle_center3d_Inr depth_def
       Point3d_center3d_def Line3d_center3d_def GraphWin3d_toProjection_def Let_def)

theorem getDepth_detached_witness:
  "getDepth new_windows (Point3d_object (Point3d 1 2 3)) = Inl (AttributeError ''toProjection'') \<and>
   depth new_windows (Point3d_object (Point3d 1 2 3)) = Inr None \<and>
   getDepth new_windows (Point3d_object ((Point3d 1 2 3)\<lparr>canvas := Some 0\<rparr>)) = Inr 3"
  using getDepth_detached [of "Point3d_object (Point3d 1 2 3)" new_windows]
    getDepth_detached [of "Point3d_object ((Point3d 1 2 3)\<lparr>canvas := Some 0\<rparr>)" new_windows]
  by (simp add: Point3d_def new_windows_def GraphWin3d_def GraphicsObject3d_getDepth_def
      Point3d_center3d_def)


end
